theory Spec2Isabelle
  imports Complex_Main
begin

section \<open>Values held by a table\<close>

text \<open>
  The backend (\<^verbatim>\<open>src/backend/app.py\<close>) works on pandas tables. A numeric cell is a
  double. The model keeps a finite double as the real it denotes and keeps the three special
  values, so that a division by zero has the value pandas gives it instead of the value HOL
  gives \<open>x / 0\<close>. The result of an operation is the exact real when that is within the
  range of doubles, and an infinity when it is not (overflow); the rounding of a result
  within the range to the nearest double is left out.
\<close>

datatype fl = Fin real | PInf | NInf | NaN

text \<open>
  The least magnitude that rounds to an infinity: half a unit in the last place above the
  largest double, which is \<^verbatim>\<open>(2 - 2^-52) * 2^1023\<close>.
\<close>

definition overflow_bound :: real where
  "overflow_bound = 2 ^ 1024 - 2 ^ 970"

definition to_double :: "real \<Rightarrow> fl" where
  "to_double x =
     (if overflow_bound \<le> \<bar>x\<bar> then (if 0 < x then PInf else NInf) else Fin x)"

text \<open>
  A text cell is a Python \<^verbatim>\<open>str\<close>. The digits of a number are not modelled, so the text of
  a numeric literal is kept as \<open>NumText x\<close>, the characters that denote \<open>x\<close>; every other
  text is \<open>Plain s\<close>.
\<close>

datatype pystr = Plain string | NumText fl

datatype cell = F fl | S pystr

type_synonym series = "cell list"

text \<open>A DataFrame: its columns in order, each with its name (pandas stores by column).\<close>

type_synonym dataframe = "(string \<times> series) list"

text \<open>
  A CSV file after tokenisation: the header names, each with the fields below it. A field
  is \<open>Lit x\<close> when the number parser accepts its characters and reads \<open>x\<close>, and \<open>Txt s\<close>
  otherwise. Quoting, delimiters and the digits of numbers belong to the tokeniser.
\<close>

datatype field = Lit fl | Txt string

type_synonym csv = "(string \<times> field list) list"

datatype key = Col string | Row nat

datatype error =
    FileNotFoundError
  | EmptyDataError
  | ParserError
  | KeyError key
  | TypeError
  | ValueError
  | NameError

definition bind :: "error + 'a \<Rightarrow> ('a \<Rightarrow> error + 'b) \<Rightarrow> error + 'b" where
  "bind r f = (case r of Inl e \<Rightarrow> Inl e | Inr v \<Rightarrow> f v)"

subsection \<open>Arithmetic on doubles\<close>

fun fl_div :: "fl \<Rightarrow> fl \<Rightarrow> fl" where
  "fl_div NaN _ = NaN"
| "fl_div _ NaN = NaN"
| "fl_div (Fin a) (Fin b) =
     (if b = 0 then (if a = 0 then NaN else if 0 < a then PInf else NInf)
      else to_double (a / b))"
| "fl_div (Fin a) PInf = Fin 0"
| "fl_div (Fin a) NInf = Fin 0"
| "fl_div PInf (Fin b) = (if b < 0 then NInf else PInf)"
| "fl_div NInf (Fin b) = (if b < 0 then PInf else NInf)"
| "fl_div PInf PInf = NaN"
| "fl_div PInf NInf = NaN"
| "fl_div NInf PInf = NaN"
| "fl_div NInf NInf = NaN"

fun fl_mul :: "fl \<Rightarrow> fl \<Rightarrow> fl" where
  "fl_mul NaN _ = NaN"
| "fl_mul _ NaN = NaN"
| "fl_mul (Fin a) (Fin b) = to_double (a * b)"
| "fl_mul (Fin a) PInf = (if a = 0 then NaN else if 0 < a then PInf else NInf)"
| "fl_mul (Fin a) NInf = (if a = 0 then NaN else if 0 < a then NInf else PInf)"
| "fl_mul PInf (Fin b) = (if b = 0 then NaN else if 0 < b then PInf else NInf)"
| "fl_mul NInf (Fin b) = (if b = 0 then NaN else if 0 < b then NInf else PInf)"
| "fl_mul PInf PInf = PInf"
| "fl_mul PInf NInf = NInf"
| "fl_mul NInf PInf = NInf"
| "fl_mul NInf NInf = PInf"

fun fl_add :: "fl \<Rightarrow> fl \<Rightarrow> fl" where
  "fl_add NaN _ = NaN"
| "fl_add _ NaN = NaN"
| "fl_add (Fin a) (Fin b) = to_double (a + b)"
| "fl_add (Fin a) PInf = PInf"
| "fl_add (Fin a) NInf = NInf"
| "fl_add PInf (Fin b) = PInf"
| "fl_add NInf (Fin b) = NInf"
| "fl_add PInf PInf = PInf"
| "fl_add PInf NInf = NaN"
| "fl_add NInf PInf = NaN"
| "fl_add NInf NInf = NInf"

text \<open>\<^verbatim>\<open>x < y\<close> and \<^verbatim>\<open>x >= y\<close> on doubles: every comparison with NaN is false.\<close>

fun fl_less :: "fl \<Rightarrow> fl \<Rightarrow> bool" where
  "fl_less NaN _ = False"
| "fl_less _ NaN = False"
| "fl_less (Fin a) (Fin b) = (a < b)"
| "fl_less (Fin a) PInf = True"
| "fl_less (Fin a) NInf = False"
| "fl_less PInf _ = False"
| "fl_less NInf (Fin b) = True"
| "fl_less NInf PInf = True"
| "fl_less NInf NInf = False"

fun fl_ge :: "fl \<Rightarrow> fl \<Rightarrow> bool" where
  "fl_ge NaN _ = False"
| "fl_ge _ NaN = False"
| "fl_ge x y = (\<not> fl_less x y)"

text \<open>
  \<^verbatim>\<open>round(x, 2)\<close> on a numpy double, and \<^verbatim>\<open>.round(2)\<close>: the value is multiplied by 100,
  rounded to an integer with an exact tie going to the even neighbour, and divided by 100;
  NaN and the infinities are returned as they are.
\<close>

definition round_half_even :: "real \<Rightarrow> int" where
  "round_half_even y =
     (let n = \<lfloor>y\<rfloor>; d = y - of_int n
      in if d < 1 / 2 then n else if 1 / 2 < d then n + 1 else if even n then n else n + 1)"

fun rint :: "fl \<Rightarrow> fl" where
  "rint (Fin a) = Fin (of_int (round_half_even a))"
| "rint x = x"

definition round2 :: "fl \<Rightarrow> fl" where
  "round2 x = fl_div (rint (fl_mul x (Fin 100))) (Fin 100)"

section \<open>Tables\<close>

fun traverse :: "('a \<Rightarrow> error + 'b) \<Rightarrow> 'a list \<Rightarrow> error + 'b list" where
  "traverse f [] = Inr []"
| "traverse f (x # xs) = bind (f x) (\<lambda>y. bind (traverse f xs) (\<lambda>ys. Inr (y # ys)))"

text \<open>\<^verbatim>\<open>df[c]\<close>: the column, or KeyError.\<close>

definition getitem :: "dataframe \<Rightarrow> string \<Rightarrow> error + series" where
  "getitem df c = (case map_of df c of None \<Rightarrow> Inl (KeyError (Col c)) | Some xs \<Rightarrow> Inr xs)"

text \<open>\<^verbatim>\<open>df[c] = xs\<close>: an existing column is replaced where it stands, a new one goes last.\<close>

fun setitem :: "dataframe \<Rightarrow> string \<Rightarrow> series \<Rightarrow> dataframe" where
  "setitem [] c xs = [(c, xs)]"
| "setitem ((n, ys) # df) c xs =
     (if n = c then (n, xs) # df else (n, ys) # setitem df c xs)"

text \<open>\<^verbatim>\<open>len(df)\<close>: the number of rows.\<close>

definition len_df :: "dataframe \<Rightarrow> nat" where
  "len_df df = (case df of [] \<Rightarrow> 0 | (n, xs) # rest \<Rightarrow> length xs)"

text \<open>\<^verbatim>\<open>df.fillna(v)\<close>: every missing cell, of every column, becomes the number \<open>v\<close>.\<close>

definition fill_cell :: "fl \<Rightarrow> cell \<Rightarrow> cell" where
  "fill_cell v c = (if c = F NaN then F v else c)"

definition fillna :: "fl \<Rightarrow> dataframe \<Rightarrow> dataframe" where
  "fillna v df = map (\<lambda>(n, xs). (n, map (fill_cell v) xs)) df"

text \<open>\<^verbatim>\<open>xs.replace(a, b)\<close>: the cells equal to the number \<open>a\<close> become \<open>b\<close>.\<close>

definition replace :: "fl \<Rightarrow> fl \<Rightarrow> series \<Rightarrow> series" where
  "replace a b xs = map (\<lambda>c. if c = F a then F b else c) xs"

text \<open>\<^verbatim>\<open>xs / ys\<close>, cell by cell; a text operand raises TypeError.\<close>

fun cell_div :: "cell \<Rightarrow> cell \<Rightarrow> error + fl" where
  "cell_div (F a) (F b) = Inr (fl_div a b)"
| "cell_div _ _ = Inl TypeError"

fun series_div :: "series \<Rightarrow> series \<Rightarrow> error + fl list" where
  "series_div (x # xs) (y # ys) =
     bind (cell_div x y) (\<lambda>z. bind (series_div xs ys) (\<lambda>zs. Inr (z # zs)))"
| "series_div _ _ = Inr []"

text \<open>The numbers of a column; a text cell raises TypeError.\<close>

fun as_float :: "cell \<Rightarrow> error + fl" where
  "as_float (F x) = Inr x"
| "as_float (S t) = Inl TypeError"

definition floats :: "series \<Rightarrow> error + fl list" where
  "floats xs = traverse as_float xs"

text \<open>\<^verbatim>\<open>xs.mean()\<close>: missing cells are skipped; no cell left gives NaN.\<close>

definition mean :: "series \<Rightarrow> error + fl" where
  "mean xs =
     bind (floats xs) (\<lambda>vs.
       let ws = filter (\<lambda>v. v \<noteq> NaN) vs
       in Inr (fl_div (foldl fl_add (Fin 0) ws) (Fin (of_nat (length ws)))))"

text \<open>
  The position and value of the first greatest number from position \<open>i\<close> on, missing cells
  skipped.
\<close>

fun first_max :: "nat \<Rightarrow> fl list \<Rightarrow> (nat \<times> fl) option" where
  "first_max i [] = None"
| "first_max i (x # xs) =
     (case first_max (Suc i) xs of
        None \<Rightarrow> (if x = NaN then None else Some (i, x))
      | Some (j, y) \<Rightarrow>
          (if x = NaN then Some (j, y) else if fl_less x y then Some (j, y) else Some (i, x)))"

text \<open>
  \<^verbatim>\<open>xs.idxmax()\<close>: the row label of the first greatest value. With no value to compare
  (no row, or missing cells only) pandas raises ValueError.
\<close>

definition idxmax :: "series \<Rightarrow> error + nat" where
  "idxmax xs =
     bind (floats xs) (\<lambda>vs.
       case first_max 0 vs of None \<Rightarrow> Inl ValueError | Some (i, v) \<Rightarrow> Inr i)"

text \<open>\<^verbatim>\<open>df.loc[i, c]\<close>.\<close>

definition loc :: "dataframe \<Rightarrow> nat \<Rightarrow> string \<Rightarrow> error + cell" where
  "loc df i c =
     bind (getitem df c) (\<lambda>xs. if i < length xs then Inr (xs ! i) else Inl (KeyError (Row i)))"

subsection \<open>Grouping\<close>

text \<open>
  \<^verbatim>\<open>groupby\<close> sorts the group keys. The order of Python strings on the text of a number
  depends on its digits, so the order on keys is a parameter \<open>le\<close> of the model.
\<close>

fun insert_by :: "('a \<Rightarrow> 'a \<Rightarrow> bool) \<Rightarrow> 'a \<Rightarrow> 'a list \<Rightarrow> 'a list" where
  "insert_by le k [] = [k]"
| "insert_by le k (x # xs) = (if le k x then k # x # xs else x # insert_by le k xs)"

definition sort_by :: "('a \<Rightarrow> 'a \<Rightarrow> bool) \<Rightarrow> 'a list \<Rightarrow> 'a list" where
  "sort_by le xs = foldr (insert_by le) xs []"

text \<open>
  The order used in the examples: numbers before strings, numbers by value, strings by code
  point. It is Python's order as long as no key is the text of a number (such texts are put
  before the other strings, by value).
\<close>

fun str_le :: "string \<Rightarrow> string \<Rightarrow> bool" where
  "str_le [] ys = True"
| "str_le (x # xs) [] = False"
| "str_le (x # xs) (y # ys) = ((of_char x :: nat) < of_char y \<or> (x = y \<and> str_le xs ys))"

fun plain_le :: "cell \<Rightarrow> cell \<Rightarrow> bool" where
  "plain_le (F a) (F b) = (\<not> fl_less b a)"
| "plain_le (F a) (S t) = True"
| "plain_le (S t) (F b) = False"
| "plain_le (S (Plain a)) (S (Plain b)) = str_le a b"
| "plain_le (S (NumText a)) (S (Plain b)) = True"
| "plain_le (S (Plain a)) (S (NumText b)) = False"
| "plain_le (S (NumText a)) (S (NumText b)) = (\<not> fl_less b a)"

text \<open>The keys of the groups: missing keys are dropped.\<close>

definition group_keys :: "(cell \<Rightarrow> cell \<Rightarrow> bool) \<Rightarrow> series \<Rightarrow> cell list" where
  "group_keys le ks = sort_by le (remdups (filter (\<lambda>k. k \<noteq> F NaN) ks))"

text \<open>\<^verbatim>\<open>df.groupby(by)[c].mean()\<close>: the mean of column \<open>c\<close> in each group, in key order.\<close>

definition groupby_mean ::
  "(cell \<Rightarrow> cell \<Rightarrow> bool) \<Rightarrow> dataframe \<Rightarrow> string \<Rightarrow> string \<Rightarrow> error + (cell \<times> fl) list" where
  "groupby_mean le df by c =
     bind (getitem df by) (\<lambda>ks.
     bind (getitem df c) (\<lambda>xs.
       traverse
         (\<lambda>k. bind (mean (map snd (filter (\<lambda>p. fst p = k) (zip ks xs)))) (\<lambda>m. Inr (k, m)))
         (group_keys le ks)))"

text \<open>\<^verbatim>\<open>idxmax\<close> of a series indexed by group keys: the key of the first greatest mean.\<close>

definition idxmax_keyed :: "(cell \<times> fl) list \<Rightarrow> error + cell" where
  "idxmax_keyed gs =
     (case first_max 0 (map snd gs) of
        None \<Rightarrow> Inl ValueError
      | Some (i, v) \<Rightarrow> if i < length gs then Inr (fst (gs ! i)) else Inl (KeyError (Row i)))"

subsection \<open>Reading and writing CSV\<close>

text \<open>The strings that \<^verbatim>\<open>read_csv\<close> takes for a missing value.\<close>

definition na_values :: "string list" where
  "na_values =
     ['''', ''#N/A'', ''#N/A N/A'', ''#NA'', ''-1.#IND'', ''-1.#QNAN'', ''-NaN'', ''-nan'',
      ''1.#IND'', ''1.#QNAN'', ''<NA>'', ''N/A'', ''NA'', ''NULL'', ''NaN'', ''None'',
      ''n/a'', ''nan'', ''null'']"

definition is_na :: "string \<Rightarrow> bool" where
  "is_na s = (s \<in> set na_values)"

fun numeric_field :: "field \<Rightarrow> bool" where
  "numeric_field (Lit x) = True"
| "numeric_field (Txt s) = is_na s"

fun parse_numeric :: "field \<Rightarrow> cell" where
  "parse_numeric (Lit x) = F x"
| "parse_numeric (Txt s) = F NaN"

fun parse_object :: "field \<Rightarrow> cell" where
  "parse_object (Lit x) = (if x = NaN then F NaN else S (NumText x))"
| "parse_object (Txt s) = (if is_na s then F NaN else S (Plain s))"

text \<open>
  The type of a column is inferred from all its fields: numbers when every field is a number
  or missing, text otherwise. Booleans and dates are not modelled (they stay text).
\<close>

definition parse_column :: "field list \<Rightarrow> series" where
  "parse_column fs =
     (if list_all numeric_field fs then map parse_numeric fs else map parse_object fs)"

definition rectangular :: "csv \<Rightarrow> bool" where
  "rectangular f =
     (case f of [] \<Rightarrow> True | (n, xs) # rest \<Rightarrow> list_all (\<lambda>c. length (snd c) = length xs) rest)"

text \<open>
  \<^verbatim>\<open>pd.read_csv(path)\<close>. A file with no header raises EmptyDataError. A grid that is not
  rectangular stands for lines of unequal length and is rejected. Header names are taken as
  they are (pandas renames a repeated name; the model is meant for distinct names).
\<close>

definition parsed :: "csv \<Rightarrow> dataframe" where
  "parsed f = map (\<lambda>(n, xs). (n, parse_column xs)) f"

definition read_csv :: "(string \<rightharpoonup> csv) \<Rightarrow> string \<Rightarrow> error + dataframe" where
  "read_csv fs path =
     (case fs path of
        None \<Rightarrow> Inl FileNotFoundError
      | Some f \<Rightarrow>
          if f = [] then Inl EmptyDataError
          else if \<not> rectangular f then Inl ParserError
          else Inr (parsed f))"

text \<open>A missing cell is written as the empty field.\<close>

fun render :: "cell \<Rightarrow> field" where
  "render (F x) = (if x = NaN then Txt [] else Lit x)"
| "render (S (Plain s)) = Txt s"
| "render (S (NumText x)) = Lit x"

text \<open>\<^verbatim>\<open>df.to_csv(path, index=False)\<close>: the text written.\<close>

definition to_csv :: "dataframe \<Rightarrow> csv" where
  "to_csv df = map (\<lambda>(n, xs). (n, map render xs)) df"

text \<open>\<^verbatim>\<open>df.to_dict(orient='records')\<close>: one dictionary per row.\<close>

definition to_records :: "dataframe \<Rightarrow> (string \<times> cell) list list" where
  "to_records df = map (\<lambda>i. map (\<lambda>(n, xs). (n, xs ! i)) df) [0..<len_df df]"

section \<open>Derived metrics (app.py, lines 14 to 17)\<close>

text \<open>Line 14, right-hand side.\<close>

definition efficiency :: "dataframe \<Rightarrow> error + series" where
  "efficiency df =
     bind (getitem df ''ProjectsCompleted'') (\<lambda>ps.
     bind (getitem df ''ExperienceYears'') (\<lambda>es.
     bind (series_div ps (replace (Fin 0) (Fin 1) es)) (\<lambda>qs.
       Inr (map (\<lambda>q. F (fl_mul q (Fin 10))) qs))))"

text \<open>The lambda of line 16, applied to one score.\<close>

definition performance_level :: "fl \<Rightarrow> string" where
  "performance_level x =
     (if fl_ge x (Fin 4.5) then ''High'' else if fl_ge x (Fin 3.5) then ''Medium'' else ''Low'')"

text \<open>The lambda applied to a cell: comparing a text with a number raises TypeError.\<close>

fun level_cell :: "cell \<Rightarrow> error + cell" where
  "level_cell (F x) = Inr (S (Plain (performance_level x)))"
| "level_cell (S t) = Inl TypeError"

text \<open>Line 14 and lines 15 to 17, as functions of the table assigned to.\<close>

definition assign_efficiency :: "dataframe \<Rightarrow> error + dataframe" where
  "assign_efficiency df =
     bind (efficiency df) (\<lambda>xs. Inr (setitem df ''Efficiency (%)'' xs))"

definition assign_level :: "dataframe \<Rightarrow> error + dataframe" where
  "assign_level df =
     bind (getitem df ''PerformanceScore'') (\<lambda>xs.
     bind (traverse level_cell xs) (\<lambda>ls. Inr (setitem df ''Performance_Level'' ls)))"

section \<open>The process: files, objects and module-level names\<close>

text \<open>
  \<open>files\<close> is the file system, \<open>heap\<close> holds the DataFrame objects, \<open>df_var\<close> is the
  module-level name \<^verbatim>\<open>df\<close> (the address it is bound to), and the other fields are the
  module-level aggregates of lines 26 to 30 (\<open>None\<close>: not yet assigned).
\<close>

record state =
  files :: "string \<rightharpoonup> csv"
  heap :: "nat \<rightharpoonup> dataframe"
  next_id :: nat
  df_var :: "nat option"
  avg_perf :: "fl option"
  avg_salary :: "fl option"
  avg_attendance :: "fl option"
  top_performer :: "cell option"
  top_dept :: "cell option"

definition source_path :: string where
  "source_path = ''employee_performance_200.csv''"

definition store_path :: string where
  "store_path = ''processed_data.csv''"

text \<open>Reading the name \<^verbatim>\<open>df\<close>: the address and the object there.\<close>

definition deref :: "state \<Rightarrow> error + (nat \<times> dataframe)" where
  "deref s =
     (case df_var s of
        None \<Rightarrow> Inl NameError
      | Some a \<Rightarrow> (case heap s a of None \<Rightarrow> Inl NameError | Some t \<Rightarrow> Inr (a, t)))"

text \<open>Line 8: a new object, bound to \<^verbatim>\<open>df\<close>.\<close>

definition stmt_read_csv :: "state \<Rightarrow> error + state" where
  "stmt_read_csv s =
     bind (read_csv (files s) source_path) (\<lambda>t.
       Inr (s\<lparr>heap := (heap s)(next_id s \<mapsto> t), next_id := Suc (next_id s),
              df_var := Some (next_id s)\<rparr>))"

text \<open>Line 11: \<^verbatim>\<open>inplace=True\<close>, the object itself is changed.\<close>

definition stmt_fillna :: "state \<Rightarrow> error + state" where
  "stmt_fillna s =
     bind (deref s) (\<lambda>(a, t). Inr (s\<lparr>heap := (heap s)(a \<mapsto> fillna (Fin 0) t)\<rparr>))"

text \<open>Line 14 and lines 15 to 17: column assignments on the same object.\<close>

definition stmt_efficiency :: "state \<Rightarrow> error + state" where
  "stmt_efficiency s =
     bind (deref s) (\<lambda>(a, t).
     bind (assign_efficiency t) (\<lambda>t'. Inr (s\<lparr>heap := (heap s)(a \<mapsto> t')\<rparr>)))"

definition stmt_level :: "state \<Rightarrow> error + state" where
  "stmt_level s =
     bind (deref s) (\<lambda>(a, t).
     bind (assign_level t) (\<lambda>t'. Inr (s\<lparr>heap := (heap s)(a \<mapsto> t')\<rparr>)))"

text \<open>Line 20: the store is written over.\<close>

definition stmt_to_csv :: "state \<Rightarrow> error + state" where
  "stmt_to_csv s =
     bind (deref s) (\<lambda>(a, t). Inr (s\<lparr>files := (files s)(store_path \<mapsto> to_csv t)\<rparr>))"

text \<open>Lines 26 to 30.\<close>

definition stmt_avg_perf :: "state \<Rightarrow> error + state" where
  "stmt_avg_perf s =
     bind (deref s) (\<lambda>(a, t).
     bind (getitem t ''PerformanceScore'') (\<lambda>xs.
     bind (mean xs) (\<lambda>m. Inr (s\<lparr>avg_perf := Some (round2 m)\<rparr>))))"

definition stmt_avg_salary :: "state \<Rightarrow> error + state" where
  "stmt_avg_salary s =
     bind (deref s) (\<lambda>(a, t).
     bind (getitem t ''MonthlySalary'') (\<lambda>xs.
     bind (mean xs) (\<lambda>m. Inr (s\<lparr>avg_salary := Some (round2 m)\<rparr>))))"

definition stmt_avg_attendance :: "state \<Rightarrow> error + state" where
  "stmt_avg_attendance s =
     bind (deref s) (\<lambda>(a, t).
     bind (getitem t ''AttendanceRate (%)'') (\<lambda>xs.
     bind (mean xs) (\<lambda>m. Inr (s\<lparr>avg_attendance := Some (round2 m)\<rparr>))))"

text \<open>\<^verbatim>\<open>df.loc[df['PerformanceScore'].idxmax(), 'Name']\<close>.\<close>

definition top_performer_of :: "dataframe \<Rightarrow> error + cell" where
  "top_performer_of t =
     bind (getitem t ''PerformanceScore'') (\<lambda>xs.
     bind (idxmax xs) (\<lambda>i. loc t i ''Name''))"

text \<open>\<^verbatim>\<open>df.groupby('Department')['PerformanceScore'].mean().idxmax()\<close>.\<close>

definition top_department_of :: "(cell \<Rightarrow> cell \<Rightarrow> bool) \<Rightarrow> dataframe \<Rightarrow> error + cell" where
  "top_department_of le t =
     bind (groupby_mean le t ''Department'' ''PerformanceScore'') idxmax_keyed"

definition stmt_top_performer :: "state \<Rightarrow> error + state" where
  "stmt_top_performer s =
     bind (deref s) (\<lambda>(a, t).
     bind (top_performer_of t) (\<lambda>c. Inr (s\<lparr>top_performer := Some c\<rparr>)))"

definition stmt_top_dept :: "(cell \<Rightarrow> cell \<Rightarrow> bool) \<Rightarrow> state \<Rightarrow> error + state" where
  "stmt_top_dept le s =
     bind (deref s) (\<lambda>(a, t).
     bind (top_department_of le t) (\<lambda>c. Inr (s\<lparr>top_dept := Some c\<rparr>)))"

text \<open>
  Statements run in order; an exception stops the run, and what the earlier statements did
  stays done.
\<close>

fun run :: "(state \<Rightarrow> error + state) list \<Rightarrow> state \<Rightarrow> state \<times> error option" where
  "run [] s = (s, None)"
| "run (c # cs) s = (case c s of Inl e \<Rightarrow> (s, Some e) | Inr s' \<Rightarrow> run cs s')"

text \<open>The Ingestor (lines 8 to 11), the Metrics Deriver (14 to 17), the Materializer (20).\<close>

definition ingestor :: "(state \<Rightarrow> error + state) list" where
  "ingestor = [stmt_read_csv, stmt_fillna]"

definition deriver :: "(state \<Rightarrow> error + state) list" where
  "deriver = [stmt_efficiency, stmt_level]"

definition materializer :: "(state \<Rightarrow> error + state) list" where
  "materializer = [stmt_to_csv]"

definition core_metrics :: "(cell \<Rightarrow> cell \<Rightarrow> bool) \<Rightarrow> (state \<Rightarrow> error + state) list" where
  "core_metrics le =
     [stmt_avg_perf, stmt_avg_salary, stmt_avg_attendance, stmt_top_performer, stmt_top_dept le]"

text \<open>The module body, lines 8 to 30.\<close>

definition module_body :: "(cell \<Rightarrow> cell \<Rightarrow> bool) \<Rightarrow> state \<Rightarrow> state \<times> error option" where
  "module_body le s = run (ingestor @ deriver @ materializer @ core_metrics le) s"

section \<open>The routes (app.py, lines 42 to 72)\<close>

text \<open>
  Each route binds a local \<^verbatim>\<open>df\<close> to what it reads from the store; the response is the
  value handed to \<^verbatim>\<open>jsonify\<close>.
\<close>

definition get_data :: "state \<Rightarrow> error + (string \<times> cell) list list" where
  "get_data s = bind (read_csv (files s) store_path) (\<lambda>t. Inr (to_records t))"

record metrics =
  Average_Performance_Score :: fl
  Average_Salary :: fl
  Average_Attendance :: fl
  Top_Performer :: cell
  Top_Department :: cell
  High_Performers_Count :: nat
  Total_Employees :: nat

definition metrics_of :: "(cell \<Rightarrow> cell \<Rightarrow> bool) \<Rightarrow> dataframe \<Rightarrow> error + metrics" where
  "metrics_of le t =
     bind (getitem t ''PerformanceScore'') (\<lambda>ps.
     bind (mean ps) (\<lambda>m1.
     bind (getitem t ''MonthlySalary'') (\<lambda>ss.
     bind (mean ss) (\<lambda>m2.
     bind (getitem t ''AttendanceRate (%)'') (\<lambda>as.
     bind (mean as) (\<lambda>m3.
     bind (top_performer_of t) (\<lambda>tp.
     bind (top_department_of le t) (\<lambda>td.
     bind (getitem t ''Performance_Level'') (\<lambda>ls.
       Inr \<lparr>Average_Performance_Score = round2 m1,
            Average_Salary = round2 m2,
            Average_Attendance = round2 m3,
            Top_Performer = tp,
            Top_Department = td,
            High_Performers_Count = length (filter (\<lambda>c. c = S (Plain ''High'')) ls),
            Total_Employees = len_df t\<rparr>)))))))))"

definition get_metrics :: "(cell \<Rightarrow> cell \<Rightarrow> bool) \<Rightarrow> state \<Rightarrow> error + metrics" where
  "get_metrics le s = bind (read_csv (files s) store_path) (metrics_of le)"

definition get_department_stats ::
  "(cell \<Rightarrow> cell \<Rightarrow> bool) \<Rightarrow> state \<Rightarrow> error + (cell \<times> fl) list" where
  "get_department_stats le s =
     bind (read_csv (files s) store_path) (\<lambda>t.
     bind (groupby_mean le t ''Department'' ''PerformanceScore'') (\<lambda>gs.
       Inr (map (\<lambda>(k, m). (k, round2 m)) gs)))"

section \<open>The specification's wording\<close>

text \<open>The thresholds as the specification words them, each on its own.\<close>

definition spec_high :: "real \<Rightarrow> bool" where
  "spec_high x = (4.5 \<le> x)"

definition spec_medium :: "real \<Rightarrow> bool" where
  "spec_medium x = (3.5 \<le> x \<and> x < 4.5)"

definition spec_low :: "real \<Rightarrow> bool" where
  "spec_low x = (x < 3.5)"


text \<open>
  A field of the source as the store holds it when its column is carried through: a missing
  value has become the number 0, any other field is as it was.
\<close>

fun missing_field :: "field \<Rightarrow> bool" where
  "missing_field (Lit x) = (x = NaN)"
| "missing_field (Txt s) = is_na s"

definition zero_filled :: "field \<Rightarrow> field" where
  "zero_filled x = (if missing_field x then Lit (Fin 0) else x)"





section \<open>Notions used in the proofs\<close>

text \<open>The state in which line 8 has bound \<^verbatim>\<open>df\<close> to a new object holding \<open>t\<close>.\<close>

definition loaded :: "state \<Rightarrow> dataframe \<Rightarrow> state" where
  "loaded s t =
     s\<lparr>heap := (heap s)(next_id s \<mapsto> t), next_id := Suc (next_id s),
       df_var := Some (next_id s)\<rparr>"

section \<open>Concrete tables\<close>


text \<open>A process that has just started: nothing allocated, no module-level name bound.\<close>

definition initial :: "(string \<rightharpoonup> csv) \<Rightarrow> state" where
  "initial fs =
     \<lparr>files = fs, heap = Map.empty, next_id = 0, df_var = None, avg_perf = None,
      avg_salary = None, avg_attendance = None, top_performer = None, top_dept = None\<rparr>"

text \<open>The two records of the specification's scenario, as a source file and as the store.\<close>

definition scenario :: csv where
  "scenario =
     [(''Name'', [Txt ''A'', Txt ''B'']),
      (''Department'', [Txt ''Eng'', Txt ''Eng'']),
      (''ExperienceYears'', [Lit (Fin 0), Lit (Fin 2)]),
      (''ProjectsCompleted'', [Lit (Fin 5), Lit (Fin 4)]),
      (''MonthlySalary'', [Lit (Fin 1000), Lit (Fin 2000)]),
      (''AttendanceRate (%)'', [Lit (Fin 90), Lit (Fin 80)]),
      (''PerformanceScore'', [Lit (Fin 4.6), Lit (Fin 3)])]"

definition scenario_store :: csv where
  "scenario_store =
     scenario @
     [(''Efficiency (%)'', [Lit (Fin 50), Lit (Fin 20)]),
      (''Performance_Level'', [Txt ''High'', Txt ''Low''])]"

text \<open>The scenario's table as ingested, as derived, and the process that has ingested it.\<close>

definition scenario_table :: dataframe where
  "scenario_table =
     [(''Name'', [S (Plain ''A''), S (Plain ''B'')]),
      (''Department'', [S (Plain ''Eng''), S (Plain ''Eng'')]),
      (''ExperienceYears'', [F (Fin 0), F (Fin 2)]),
      (''ProjectsCompleted'', [F (Fin 5), F (Fin 4)]),
      (''MonthlySalary'', [F (Fin 1000), F (Fin 2000)]),
      (''AttendanceRate (%)'', [F (Fin 90), F (Fin 80)]),
      (''PerformanceScore'', [F (Fin 4.6), F (Fin 3)])]"

definition scenario_derived :: dataframe where
  "scenario_derived =
     scenario_table @
     [(''Efficiency (%)'', [F (Fin 50), F (Fin 20)]),
      (''Performance_Level'', [S (Plain ''High''), S (Plain ''Low'')])]"

definition ingested :: state where
  "ingested =
     (initial [source_path \<mapsto> scenario])
       \<lparr>heap := [0 \<mapsto> scenario_table], next_id := 1, df_var := Some 0\<rparr>"






text \<open>A store with its header and no record.\<close>

definition empty_store :: csv where
  "empty_store =
     [(''Name'', []), (''Department'', []), (''ExperienceYears'', []),
      (''ProjectsCompleted'', []), (''MonthlySalary'', []), (''AttendanceRate (%)'', []),
      (''PerformanceScore'', []), (''Efficiency (%)'', []), (''Performance_Level'', [])]"

text \<open>A source file with its header and no record.\<close>

definition empty_source :: csv where
  "empty_source =
     [(''Name'', []), (''Department'', []), (''ExperienceYears'', []),
      (''ProjectsCompleted'', []), (''MonthlySalary'', []), (''AttendanceRate (%)'', []),
      (''PerformanceScore'', [])]"

text \<open>A process that serves the scenario's store with other module-level aggregates.\<close>

definition stale_process :: state where
  "stale_process =
     (initial [store_path \<mapsto> scenario_store])
       \<lparr>avg_perf := Some (Fin 1), top_performer := Some (S (Plain ''Z''))\<rparr>"



section \<open>Basic facts\<close>

lemma bind_Inr [simp]: "bind (Inr v) f = f v"
  by (simp add: bind_def)

lemma bind_Inl [simp]: "bind (Inl e) f = Inl e"
  by (simp add: bind_def)

lemma bind_eq_Inr: "bind r f = Inr y \<longleftrightarrow> (\<exists>v. r = Inr v \<and> f v = Inr y)"
  by (cases r) simp_all


lemma overflow_bound_large: "10 ^ 9 < overflow_bound"
  by (simp add: overflow_bound_def)

lemma to_double_small [simp]: "\<bar>x\<bar> \<le> 10 ^ 9 \<Longrightarrow> to_double x = Fin x"
  using overflow_bound_large by (simp add: to_double_def)

lemma round2_NaN [simp]: "round2 NaN = NaN"
  by (simp add: round2_def)


lemmas stmt_defs =
  stmt_read_csv_def stmt_fillna_def stmt_efficiency_def stmt_level_def stmt_to_csv_def
  stmt_avg_perf_def stmt_avg_salary_def stmt_avg_attendance_def stmt_top_performer_def
  stmt_top_dept_def

lemmas body_defs =
  module_body_def ingestor_def deriver_def materializer_def core_metrics_def initial_def
  source_path_def store_path_def

lemmas table_defs =
  read_csv_def parsed_def rectangular_def parse_column_def is_na_def na_values_def getitem_def
  fillna_def fill_cell_def replace_def efficiency_def assign_efficiency_def assign_level_def
  to_csv_def mean_def floats_def idxmax_def loc_def top_performer_of_def
  top_department_of_def groupby_mean_def group_keys_def sort_by_def idxmax_keyed_def
  len_df_def round2_def round_half_even_def performance_level_def deref_def

lemma deref_cong: "df_var s' = df_var s \<Longrightarrow> heap s' = heap s \<Longrightarrow> deref s' = deref s"
  by (auto simp: deref_def split: option.splits)

lemma read_scenario_store:
  "read_csv [store_path \<mapsto> scenario_store] store_path =
     Inr [(''Name'', [S (Plain ''A''), S (Plain ''B'')]),
          (''Department'', [S (Plain ''Eng''), S (Plain ''Eng'')]),
          (''ExperienceYears'', [F (Fin 0), F (Fin 2)]),
          (''ProjectsCompleted'', [F (Fin 5), F (Fin 4)]),
          (''MonthlySalary'', [F (Fin 1000), F (Fin 2000)]),
          (''AttendanceRate (%)'', [F (Fin 90), F (Fin 80)]),
          (''PerformanceScore'', [F (Fin 4.6), F (Fin 3)]),
          (''Efficiency (%)'', [F (Fin 50), F (Fin 20)]),
          (''Performance_Level'', [S (Plain ''High''), S (Plain ''Low'')])]"
  by (simp add: read_csv_def parsed_def scenario_store_def scenario_def rectangular_def
      parse_column_def is_na_def na_values_def)

lemma scenario_metrics:
  "get_metrics plain_le (initial [store_path \<mapsto> scenario_store]) =
     Inr \<lparr>Average_Performance_Score = Fin 3.8, Average_Salary = Fin 1500,
          Average_Attendance = Fin 85, Top_Performer = S (Plain ''A''),
          Top_Department = S (Plain ''Eng''), High_Performers_Count = 1,
          Total_Employees = 2\<rparr>"
  by (simp add: get_metrics_def initial_def read_scenario_store metrics_of_def getitem_def
      mean_def floats_def top_performer_of_def idxmax_def loc_def top_department_of_def
      groupby_mean_def group_keys_def sort_by_def idxmax_keyed_def len_df_def
      round2_def round_half_even_def Let_def)

section \<open>Performance level\<close>

lemma performance_level_Fin:
  "performance_level (Fin x) =
     (if 4.5 \<le> x then ''High'' else if 3.5 \<le> x then ''Medium'' else ''Low'')"
  by (simp add: performance_level_def not_less)

text \<open>
  Claim C2. For every score exactly one of the three threshold conditions of the
  specification holds, and the level computed by the code is the level of that condition:
  High from 4.5 on, Medium from 3.5 up to but not including 4.5, Low below 3.5. The four
  boundary scores of the specification get High, Medium, Medium and Low.
\<close>

theorem performance_level_partitions:
  "(performance_level (Fin x) = ''High'' \<longleftrightarrow> spec_high x) \<and>
   (performance_level (Fin x) = ''Medium'' \<longleftrightarrow> spec_medium x) \<and>
   (performance_level (Fin x) = ''Low'' \<longleftrightarrow> spec_low x) \<and>
   (spec_high x \<or> spec_medium x \<or> spec_low x) \<and>
   \<not> (spec_high x \<and> spec_medium x) \<and>
   \<not> (spec_high x \<and> spec_low x) \<and>
   \<not> (spec_medium x \<and> spec_low x) \<and>
   performance_level (Fin 4.5) = ''High'' \<and>
   performance_level (Fin 4.499999) = ''Medium'' \<and>
   performance_level (Fin 3.5) = ''Medium'' \<and>
   performance_level (Fin 3.499999) = ''Low''"
  by (auto simp: performance_level_Fin spec_high_def spec_medium_def spec_low_def)

theorem performance_level_partitions_witness:
  "spec_high 5 \<and> performance_level (Fin 5) = ''High'' \<and>
   spec_medium 4 \<and> performance_level (Fin 4) = ''Medium'' \<and>
   spec_low 3 \<and> performance_level (Fin 3) = ''Low''"
proof -
  have h: "spec_high 5" and m: "spec_medium 4" and l: "spec_low 3"
    by (simp_all add: spec_high_def spec_medium_def spec_low_def)
  from h performance_level_partitions [of 5] have "performance_level (Fin 5) = ''High''"
    by blast
  moreover from m performance_level_partitions [of 4]
  have "performance_level (Fin 4) = ''Medium''"
    by blast
  moreover from l performance_level_partitions [of 3] have "performance_level (Fin 3) = ''Low''"
    by blast
  ultimately show ?thesis
    using h m l by blast
qed

section \<open>Efficiency\<close>










section \<open>The routes\<close>

text \<open>
  Claim C10. Each of the three routes is a function of the content of the store at the time
  of the call: in two processes whose stores hold the same content, whatever their objects
  and module-level aggregates, each route returns the same response (or raises the same
  error).
\<close>

theorem routes_read_the_store_only:
  assumes "files s1 store_path = files s2 store_path"
  shows "get_data s1 = get_data s2 \<and> get_metrics le s1 = get_metrics le s2 \<and>
         get_department_stats le s1 = get_department_stats le s2"
proof -
  have "read_csv (files s1) store_path = read_csv (files s2) store_path"
    using assms by (simp add: read_csv_def)
  then show ?thesis
    by (simp add: get_data_def get_metrics_def get_department_stats_def)
qed

theorem routes_read_the_store_only_witness:
  "files stale_process store_path = files (initial [store_path \<mapsto> scenario_store]) store_path \<and>
   avg_perf stale_process \<noteq> avg_perf (initial [store_path \<mapsto> scenario_store]) \<and>
   get_data stale_process = get_data (initial [store_path \<mapsto> scenario_store]) \<and>
   get_metrics plain_le stale_process =
     get_metrics plain_le (initial [store_path \<mapsto> scenario_store]) \<and>
   get_department_stats plain_le stale_process =
     get_department_stats plain_le (initial [store_path \<mapsto> scenario_store])"
proof -
  have f: "files stale_process store_path =
      files (initial [store_path \<mapsto> scenario_store]) store_path"
    by (simp add: stale_process_def initial_def)
  have a: "avg_perf stale_process \<noteq> avg_perf (initial [store_path \<mapsto> scenario_store])"
    by (simp add: stale_process_def initial_def)
  from f a routes_read_the_store_only [OF f, of plain_le] show ?thesis
    by blast
qed

lemma metrics_of_total: "metrics_of le t = Inr m \<Longrightarrow> Total_Employees m = len_df t"
  by (auto simp: metrics_of_def bind_eq_Inr)

text \<open>
  Claim C7. Whenever the summary-metrics route returns its metrics, the all-records route
  over the same store returns a sequence of records, and the value under Total Employees is
  the length of that sequence.
\<close>

theorem total_employees_is_length_of_records:
  assumes "get_metrics le s = Inr m"
  shows "\<exists>rs. get_data s = Inr rs \<and> Total_Employees m = length rs"
proof -
  from assms obtain t where t: "read_csv (files s) store_path = Inr t"
    and m: "metrics_of le t = Inr m"
    by (auto simp: get_metrics_def bind_eq_Inr)
  have "get_data s = Inr (to_records t)"
    by (simp add: get_data_def t)
  moreover have "length (to_records t) = len_df t"
    by (simp add: to_records_def)
  ultimately show ?thesis
    using metrics_of_total [OF m] by simp
qed

theorem total_employees_is_length_of_records_witness:
  "get_metrics plain_le (initial [store_path \<mapsto> scenario_store]) =
     Inr \<lparr>Average_Performance_Score = Fin 3.8, Average_Salary = Fin 1500,
          Average_Attendance = Fin 85, Top_Performer = S (Plain ''A''),
          Top_Department = S (Plain ''Eng''), High_Performers_Count = 1,
          Total_Employees = 2\<rparr> \<and>
   (\<exists>rs. get_data (initial [store_path \<mapsto> scenario_store]) = Inr rs \<and> length rs = 2)"
proof -
  from total_employees_is_length_of_records [OF scenario_metrics]
  have "\<exists>rs. get_data (initial [store_path \<mapsto> scenario_store]) = Inr rs \<and> length rs = 2"
    by auto
  with scenario_metrics show ?thesis
    by blast
qed

section \<open>Aggregating no record\<close>

lemma getitem_no_rows:
  assumes "\<forall>c\<in>set t. snd c = []"
  shows "getitem t c = (if c \<in> fst ` set t then Inr [] else Inl (KeyError (Col c)))"
proof (cases "map_of t c")
  case None
  then have "c \<notin> fst ` set t"
    by (simp add: map_of_eq_None_iff)
  with None show ?thesis
    by (simp add: getitem_def)
next
  case (Some xs)
  then have "(c, xs) \<in> set t"
    by (rule map_of_SomeD)
  with assms have "xs = []" "c \<in> fst ` set t"
    by force+
  with Some show ?thesis
    by (simp add: getitem_def)
qed

lemma metrics_of_no_rows:
  assumes "\<forall>c\<in>set t. snd c = []"
  shows "metrics_of le t =
     (if ''PerformanceScore'' \<notin> fst ` set t then Inl (KeyError (Col ''PerformanceScore''))
      else if ''MonthlySalary'' \<notin> fst ` set t then Inl (KeyError (Col ''MonthlySalary''))
      else if ''AttendanceRate (%)'' \<notin> fst ` set t
        then Inl (KeyError (Col ''AttendanceRate (%)''))
      else Inl ValueError)"
  by (simp add: metrics_of_def getitem_no_rows [OF assms] mean_def floats_def
      top_performer_of_def idxmax_def)

lemma read_csv_no_rows:
  assumes "fs p = Some f" "f \<noteq> []" "\<forall>c\<in>set f. snd c = []"
  shows "\<exists>t. read_csv fs p = Inr t \<and> (\<forall>c\<in>set t. snd c = []) \<and> fst ` set t = fst ` set f"
proof -
  have "rectangular f"
    using assms(3) by (auto simp: rectangular_def list_all_iff split: list.splits)
  then have "read_csv fs p = Inr (map (\<lambda>(n, xs). (n, parse_column xs)) f)"
    using assms by (simp add: read_csv_def parsed_def)
  moreover have "\<forall>c\<in>set (map (\<lambda>(n, xs). (n, parse_column xs)) f). snd c = []"
    using assms(3) by (auto simp: parse_column_def)
  moreover have "fst ` set (map (\<lambda>(n, xs). (n, parse_column xs)) f) = fst ` set f"
    by force
  ultimately show ?thesis
    by blast
qed

text \<open>
  Lines 26 to 30 on a table with no record: three NaN averages are assigned, then
  \<^verbatim>\<open>idxmax\<close> raises.
\<close>

lemma core_metrics_no_rows:
  assumes d: "deref s = Inr (a, t)" and e: "\<forall>c\<in>set t. snd c = []"
    and c: "''PerformanceScore'' \<in> fst ` set t" "''MonthlySalary'' \<in> fst ` set t"
      "''AttendanceRate (%)'' \<in> fst ` set t"
  shows "run (core_metrics le) s =
     (s\<lparr>avg_perf := Some NaN, avg_salary := Some NaN, avg_attendance := Some NaN\<rparr>,
      Some ValueError)"
proof -
  have d': "deref (s\<lparr>avg_perf := f, avg_salary := g, avg_attendance := h\<rparr>) = Inr (a, t)"
    "deref (s\<lparr>avg_perf := f, avg_salary := g\<rparr>) = Inr (a, t)"
    "deref (s\<lparr>avg_perf := f\<rparr>) = Inr (a, t)" for f g h
    using d by (auto simp: deref_def split: option.splits)
  show ?thesis
    by (simp add: core_metrics_def stmt_avg_perf_def stmt_avg_salary_def
        stmt_avg_attendance_def stmt_top_performer_def d d' getitem_no_rows [OF e] c
        mean_def floats_def top_performer_of_def idxmax_def)
qed

text \<open>
  Claim C3, as amended. Over a store with a header and no record the summary-metrics route
  returns no metrics, neither NaN nor zero ones: with the three averaged columns present,
  the averages evaluate to NaN and the top-performer lookup then raises the ValueError of
  \<^verbatim>\<open>idxmax\<close> on an empty column, which goes to the caller as it is; a missing column
  raises KeyError before that. The code defines no error of its own for this case.
\<close>

theorem metrics_over_no_records:
  assumes "files s store_path = Some f" "f \<noteq> []" "\<forall>c\<in>set f. snd c = []"
  shows "get_metrics le s =
     (if ''PerformanceScore'' \<notin> fst ` set f then Inl (KeyError (Col ''PerformanceScore''))
      else if ''MonthlySalary'' \<notin> fst ` set f then Inl (KeyError (Col ''MonthlySalary''))
      else if ''AttendanceRate (%)'' \<notin> fst ` set f
        then Inl (KeyError (Col ''AttendanceRate (%)''))
      else Inl ValueError)"
proof -
  from read_csv_no_rows [of "files s" store_path f] assms obtain t where
    "read_csv (files s) store_path = Inr t" "\<forall>c\<in>set t. snd c = []"
    "fst ` set t = fst ` set f"
    by blast
  then show ?thesis
    using metrics_of_no_rows [of t le] by (simp add: get_metrics_def)
qed

theorem metrics_over_no_records_witness:
  "files (initial [store_path \<mapsto> empty_store]) store_path = Some empty_store \<and>
   empty_store \<noteq> [] \<and>
   list_all (\<lambda>c. snd c = []) empty_store \<and>
   get_metrics plain_le (initial [store_path \<mapsto> empty_store]) = Inl ValueError"
proof -
  have f: "files (initial [store_path \<mapsto> empty_store]) store_path = Some empty_store"
    by (simp add: initial_def)
  have n: "empty_store \<noteq> []"
    by (simp add: empty_store_def)
  have e: "\<forall>c\<in>set empty_store. snd c = []"
    by (simp add: empty_store_def)
  have e': "list_all (\<lambda>c. snd c = []) empty_store"
    by (simp add: empty_store_def)
  from metrics_over_no_records [OF f n e, of plain_le]
  have "get_metrics plain_le (initial [store_path \<mapsto> empty_store]) = Inl ValueError"
    by (simp add: empty_store_def)
  with f n e' show ?thesis
    by blast
qed

text \<open>
  The claim as stated fails: over no record the route raises the ValueError that
  \<^verbatim>\<open>idxmax\<close> raises on an empty column, after the mean of the empty column was computed as
  NaN without any error; the module body does the same at start-up on a source with no record.
\<close>

theorem undefined_aggregate_counterexample:
  "mean [] = Inr NaN \<and> idxmax [] = Inl ValueError \<and>
   get_metrics plain_le (initial [store_path \<mapsto> empty_store]) = Inl ValueError \<and>
   snd (module_body plain_le (initial [source_path \<mapsto> empty_source])) = Some ValueError"
  by (simp add: get_metrics_def metrics_of_def body_defs stmt_defs table_defs
      empty_store_def empty_source_def)

section \<open>The Metrics Deriver\<close>

lemma run_ingestor_scenario:
  "run ingestor (initial [source_path \<mapsto> scenario]) = (ingested, None)"
  by (simp add: ingested_def scenario_table_def scenario_def body_defs stmt_defs table_defs)

lemma deref_ingested: "deref ingested = Inr (0, scenario_table)"
  by (simp add: ingested_def deref_def initial_def)

lemma derive_scenario_table:
  "assign_efficiency scenario_table =
     Inr (scenario_table @ [(''Efficiency (%)'', [F (Fin 50), F (Fin 20)])])"
  "assign_level (scenario_table @ [(''Efficiency (%)'', [F (Fin 50), F (Fin 20)])]) =
     Inr scenario_derived"
  by (simp_all add: scenario_table_def scenario_derived_def table_defs)

lemma deref_heap_upd:
  "deref s = Inr (a, t) \<Longrightarrow> deref (s\<lparr>heap := (heap s)(a \<mapsto> t')\<rparr>) = Inr (a, t')"
  by (auto simp: deref_def split: option.splits)

lemma run_deriver_ingested:
  "run deriver ingested =
     (ingested\<lparr>heap := (heap ingested)(0 \<mapsto> scenario_derived)\<rparr>, None)"
  by (simp add: deriver_def stmt_efficiency_def stmt_level_def deref_ingested
      derive_scenario_table deref_heap_upd [OF deref_ingested])

lemma getitem_setitem:
  "getitem (setitem df c xs) c' = (if c' = c then Inr xs else getitem df c')"
  by (induction df c xs rule: setitem.induct) (auto simp: getitem_def)

text \<open>
  Claim C4, as amended. When the Metrics Deriver (lines 14 to 17) runs to its end on the
  table \<open>t\<close> bound to \<^verbatim>\<open>df\<close>, the new content \<open>t'\<close> is a function of \<open>t\<close> alone, and
  nothing but that one object changes: files, other objects and module-level names are as
  before, and no object is created. The table is not copied: the two columns are assigned on
  the ingested object itself, which afterwards holds \<open>t'\<close>; every column other than the two
  assigned keeps its content.
\<close>

theorem deriver_assigns_in_place:
  assumes d: "deref s = Inr (a, t)" and r: "run deriver s = (s', None)"
  shows "\<exists>t1 t'. assign_efficiency t = Inr t1 \<and> assign_level t1 = Inr t' \<and>
         s' = s\<lparr>heap := (heap s)(a \<mapsto> t')\<rparr> \<and>
         getitem t' ''Efficiency (%)'' = efficiency t \<and>
         (\<forall>c. c \<noteq> ''Efficiency (%)'' \<and> c \<noteq> ''Performance_Level'' \<longrightarrow>
              getitem t' c = getitem t c)"
proof -
  from r obtain s1 where e: "stmt_efficiency s = Inr s1" and l: "stmt_level s1 = Inr s'"
    by (cases "stmt_efficiency s"; cases "stmt_level (projr (stmt_efficiency s))")
      (auto simp: deriver_def)
  from e d obtain t1 where t1: "assign_efficiency t = Inr t1"
    and s1: "s1 = s\<lparr>heap := (heap s)(a \<mapsto> t1)\<rparr>"
    by (auto simp: stmt_efficiency_def bind_eq_Inr)
  have d1: "deref s1 = Inr (a, t1)"
    unfolding s1 using d by (rule deref_heap_upd)
  from l d1 obtain t' where t': "assign_level t1 = Inr t'"
    and s': "s' = s1\<lparr>heap := (heap s1)(a \<mapsto> t')\<rparr>"
    by (auto simp: stmt_level_def bind_eq_Inr)
  from t1 obtain xs where xs: "efficiency t = Inr xs"
    and t1': "t1 = setitem t ''Efficiency (%)'' xs"
    by (auto simp: assign_efficiency_def bind_eq_Inr)
  from t' obtain ls where t'': "t' = setitem t1 ''Performance_Level'' ls"
    by (auto simp: assign_level_def bind_eq_Inr)
  have "s' = s\<lparr>heap := (heap s)(a \<mapsto> t')\<rparr>"
    by (simp add: s' s1)
  moreover have "getitem t' ''Efficiency (%)'' = efficiency t"
    by (simp add: t'' t1' xs getitem_setitem)
  moreover have "\<forall>c. c \<noteq> ''Efficiency (%)'' \<and> c \<noteq> ''Performance_Level'' \<longrightarrow>
      getitem t' c = getitem t c"
    by (simp add: t'' t1' getitem_setitem)
  ultimately show ?thesis
    using t1 t' by blast
qed

theorem deriver_assigns_in_place_witness:
  "deref ingested = Inr (0, scenario_table) \<and>
   run deriver ingested =
     (ingested\<lparr>heap := (heap ingested)(0 \<mapsto> scenario_derived)\<rparr>, None) \<and>
   (\<exists>t1 t'. assign_efficiency scenario_table = Inr t1 \<and> assign_level t1 = Inr t' \<and>
      ingested\<lparr>heap := (heap ingested)(0 \<mapsto> scenario_derived)\<rparr> =
        ingested\<lparr>heap := (heap ingested)(0 \<mapsto> t')\<rparr>)"
  using deriver_assigns_in_place [OF deref_ingested run_deriver_ingested]
    deref_ingested run_deriver_ingested
  by blast

text \<open>
  The claim as stated fails: after the Deriver has run, \<^verbatim>\<open>df\<close> is bound to the same
  object as before, no object has been created, and the content of that object, the input
  table, has changed.
\<close>

theorem deriver_mutates_input_counterexample:
  "df_var ingested = Some 0 \<and> df_var (fst (run deriver ingested)) = Some 0 \<and>
   snd (run deriver ingested) = None \<and>
   heap ingested 0 = Some scenario_table \<and>
   heap (fst (run deriver ingested)) 0 = Some scenario_derived \<and>
   scenario_derived \<noteq> scenario_table \<and>
   next_id (fst (run deriver ingested)) = next_id ingested"
  by (simp add: run_deriver_ingested) (simp add: ingested_def initial_def scenario_derived_def)

section \<open>The module body, statement by statement\<close>


lemma deref_loaded: "deref (loaded s t) = Inr (next_id s, t)"
  by (simp add: loaded_def deref_def)

lemma loaded_again:
  "(loaded s t)\<lparr>heap := (heap (loaded s t))(next_id s \<mapsto> t')\<rparr> = loaded s t'"
  by (simp add: loaded_def)

lemma files_loaded [simp]: "files (loaded s t) = files s"
  by (simp add: loaded_def)

lemma stmt_read_csv_loaded:
  "stmt_read_csv s =
     (case read_csv (files s) source_path of Inl e \<Rightarrow> Inl e | Inr t \<Rightarrow> Inr (loaded s t))"
  by (simp add: stmt_read_csv_def loaded_def bind_def split: sum.splits)

lemma stmt_on_loaded:
  "stmt_fillna (loaded s t) = Inr (loaded s (fillna (Fin 0) t))"
  "stmt_efficiency (loaded s t) =
     (case assign_efficiency t of Inl e \<Rightarrow> Inl e | Inr t' \<Rightarrow> Inr (loaded s t'))"
  "stmt_level (loaded s t) =
     (case assign_level t of Inl e \<Rightarrow> Inl e | Inr t' \<Rightarrow> Inr (loaded s t'))"
  "stmt_to_csv (loaded s t) = Inr ((loaded s t)\<lparr>files := (files s)(store_path \<mapsto> to_csv t)\<rparr>)"
  by (simp_all add: stmt_fillna_def stmt_efficiency_def stmt_level_def stmt_to_csv_def
      deref_loaded loaded_again bind_def split: sum.splits)


text \<open>Lines 8 to 20 in one step: where the run stops, and what it has done by then.\<close>

lemma run_pipeline:
  "run (ingestor @ deriver @ materializer) s =
     (case read_csv (files s) source_path of
        Inl e \<Rightarrow> (s, Some e)
      | Inr t0 \<Rightarrow>
          (case assign_efficiency (fillna (Fin 0) t0) of
             Inl e \<Rightarrow> (loaded s (fillna (Fin 0) t0), Some e)
           | Inr t1 \<Rightarrow>
               (case assign_level t1 of
                  Inl e \<Rightarrow> (loaded s t1, Some e)
                | Inr t2 \<Rightarrow>
                    ((loaded s t2)\<lparr>files := (files s)(store_path \<mapsto> to_csv t2)\<rparr>, None))))"
  by (simp add: ingestor_def deriver_def materializer_def stmt_read_csv_loaded stmt_on_loaded
      split: sum.splits)



lemma read_csv_Inr:
  "read_csv fs p = Inr t \<Longrightarrow> \<exists>f. fs p = Some f \<and> f \<noteq> [] \<and> rectangular f \<and> t = parsed f"
  by (auto simp: read_csv_def split: option.splits if_splits)

lemma names_ingested [simp]: "fst ` set (fillna v (parsed f)) = fst ` set f"
  by (force simp: fillna_def parsed_def)

lemma setitem_new: "c \<notin> fst ` set df \<Longrightarrow> setitem df c xs = df @ [(c, xs)]"
  by (induction df c xs rule: setitem.induct) auto


lemma getitem_Inr_mem: "getitem df c = Inr xs \<Longrightarrow> (c, xs) \<in> set df"
  by (auto simp: getitem_def split: option.splits dest: map_of_SomeD)


lemma series_div_length:
  "series_div xs ys = Inr zs \<Longrightarrow> length zs = min (length xs) (length ys)"
  by (induction xs ys arbitrary: zs rule: series_div.induct) (auto simp: bind_eq_Inr)

lemma traverse_length: "traverse g xs = Inr ys \<Longrightarrow> length ys = length xs"
  by (induction xs arbitrary: ys) (auto simp: bind_eq_Inr)






lemma getitem_Inr_name: "getitem df c = Inr xs \<Longrightarrow> c \<in> fst ` set df"
  by (metis getitem_Inr_mem fst_conv image_eqI)

lemma assign_efficiency_Inr:
  assumes "assign_efficiency t = Inr t1"
  shows "\<exists>xs. efficiency t = Inr xs \<and> t1 = setitem t ''Efficiency (%)'' xs \<and>
     ''ProjectsCompleted'' \<in> fst ` set t \<and> ''ExperienceYears'' \<in> fst ` set t"
proof -
  from assms obtain xs where xs: "efficiency t = Inr xs"
    and t1: "t1 = setitem t ''Efficiency (%)'' xs"
    unfolding assign_efficiency_def bind_eq_Inr by blast
  from xs obtain ps es where "getitem t ''ProjectsCompleted'' = Inr ps"
    "getitem t ''ExperienceYears'' = Inr es"
    unfolding efficiency_def bind_eq_Inr by blast
  then have "''ProjectsCompleted'' \<in> fst ` set t" "''ExperienceYears'' \<in> fst ` set t"
    by (auto dest: getitem_Inr_name)
  with xs t1 show ?thesis
    by blast
qed

lemma assign_level_Inr:
  assumes "assign_level t = Inr t2"
  shows "\<exists>ps ls. getitem t ''PerformanceScore'' = Inr ps \<and> traverse level_cell ps = Inr ls \<and>
      t2 = setitem t ''Performance_Level'' ls \<and> ''PerformanceScore'' \<in> fst ` set t"
proof -
  from assms obtain ps ls where ps: "getitem t ''PerformanceScore'' = Inr ps"
    and ls: "traverse level_cell ps = Inr ls"
    and t2: "t2 = setitem t ''Performance_Level'' ls"
    unfolding assign_level_def bind_eq_Inr by blast
  from ps have "''PerformanceScore'' \<in> fst ` set t"
    by (rule getitem_Inr_name)
  with ps ls t2 show ?thesis
    by blast
qed

section \<open>The Ingestor\<close>






section \<open>The store\<close>

lemma cell_written:
  "render (fill_cell (Fin 0) (parse_object x)) = zero_filled x"
  "numeric_field x \<Longrightarrow> render (fill_cell (Fin 0) (parse_numeric x)) = zero_filled x"
  by (cases x; simp add: fill_cell_def zero_filled_def)+

lemma column_written:
  "map (render \<circ> fill_cell (Fin 0)) (parse_column xs) = map zero_filled xs"
  by (simp add: parse_column_def cell_written list_all_iff)

lemma to_csv_ingested:
  "to_csv (fillna (Fin 0) (parsed f)) = map (\<lambda>(n, xs). (n, map zero_filled xs)) f"
  by (simp add: to_csv_def fillna_def parsed_def column_written split_def)

lemma to_csv_append: "to_csv (a @ b) = to_csv a @ to_csv b"
  by (simp add: to_csv_def)

lemma getitem_ingested_length:
  assumes "\<forall>c\<in>set f. length (snd c) = n" "getitem (fillna (Fin 0) (parsed f)) c = Inr xs"
  shows "length xs = n"
proof -
  from assms(2) have "(c, xs) \<in> set (fillna (Fin 0) (parsed f))"
    by (rule getitem_Inr_mem)
  then obtain ys where "(c, ys) \<in> set f" "xs = map (fill_cell (Fin 0)) (parse_column ys)"
    by (auto simp: fillna_def parsed_def)
  with assms(1) show ?thesis
    by (force simp: parse_column_def)
qed

text \<open>
  Claim C8, as amended. When lines 8 to 20 run to their end on a source whose columns have
  distinct names, none of them \<^verbatim>\<open>Efficiency (%)\<close> or \<^verbatim>\<open>Performance_Level\<close>, the store
  holds the columns of the source, with their names, in their order and with their fields
  (a missing value written as the number 0), followed by exactly two columns, named
  \<^verbatim>\<open>Efficiency (%)\<close> and \<^verbatim>\<open>Performance_Level\<close>, which have one field per record like the
  others.
\<close>

theorem store_shape:
  assumes src: "files s source_path = Some f"
    and n: "\<forall>c\<in>set f. length (snd c) = n"
    and fresh: "''Efficiency (%)'' \<notin> fst ` set f" "''Performance_Level'' \<notin> fst ` set f"
    and r: "run (ingestor @ deriver @ materializer) s = (s', None)"
    and dist: "distinct (map fst f)"
  shows "\<exists>es ls. files s' store_path =
           Some (map (\<lambda>(c, xs). (c, map zero_filled xs)) f @
                 [(''Efficiency (%)'', es), (''Performance_Level'', ls)]) \<and>
         length es = n \<and> length ls = n"
proof -
  let ?T = "fillna (Fin 0) (parsed f)"
  from r obtain t0 t1 t2 where t0: "read_csv (files s) source_path = Inr t0"
    and t1: "assign_efficiency (fillna (Fin 0) t0) = Inr t1"
    and t2: "assign_level t1 = Inr t2"
    and s': "s' = (loaded s t2)\<lparr>files := (files s)(store_path \<mapsto> to_csv t2)\<rparr>"
    by (auto simp: run_pipeline split: sum.splits)
  from t0 src have t0': "t0 = parsed f"
    by (auto dest: read_csv_Inr)
  from t1 obtain xs where xs: "efficiency ?T = Inr xs"
    and t1': "t1 = setitem ?T ''Efficiency (%)'' xs"
    unfolding t0' by (auto dest: assign_efficiency_Inr)
  from t2 obtain ps ls where ps: "getitem t1 ''PerformanceScore'' = Inr ps"
    and ls: "traverse level_cell ps = Inr ls"
    and t2': "t2 = setitem t1 ''Performance_Level'' ls"
    by (auto dest: assign_level_Inr)
  have a: "t1 = ?T @ [(''Efficiency (%)'', xs)]"
    unfolding t1' using fresh by (simp add: setitem_new)
  have b: "t2 = ?T @ [(''Efficiency (%)'', xs), (''Performance_Level'', ls)]"
    unfolding t2' a using fresh by (simp add: setitem_new)
  have store: "files s' store_path =
      Some (map (\<lambda>(c, xs). (c, map zero_filled xs)) f @
        [(''Efficiency (%)'', map render xs), (''Performance_Level'', map render ls)])"
    by (simp add: s' b to_csv_append to_csv_ingested) (simp add: to_csv_def)
  from xs obtain p e q where p: "getitem ?T ''ProjectsCompleted'' = Inr p"
    and e: "getitem ?T ''ExperienceYears'' = Inr e"
    and q: "series_div p (replace (Fin 0) (Fin 1) e) = Inr q"
    and xq: "xs = map (\<lambda>q. F (fl_mul q (Fin 10))) q"
    by (auto simp: efficiency_def bind_eq_Inr)
  have "length p = n" "length e = n"
    using getitem_ingested_length [OF n p] getitem_ingested_length [OF n e] by simp_all
  with series_div_length [OF q] have lx: "length xs = n"
    by (simp add: xq replace_def)
  from ps have "getitem ?T ''PerformanceScore'' = Inr ps"
    by (simp add: t1' getitem_setitem)
  then have "length ps = n"
    by (rule getitem_ingested_length [OF n])
  with traverse_length [OF ls] have ll: "length ls = n"
    by simp
  from store lx ll show ?thesis
    by simp
qed

lemma run_pipeline_scenario:
  "run (ingestor @ deriver @ materializer) (initial [source_path \<mapsto> scenario]) = (s, e) \<Longrightarrow>
   e = None \<and> files s store_path = Some scenario_store"
  by (auto simp add: scenario_def scenario_store_def body_defs stmt_defs table_defs Let_def)

lemma run_scenario:
  "module_body plain_le (initial [source_path \<mapsto> scenario]) = (s, e) \<Longrightarrow>
   e = None \<and> files s store_path = Some scenario_store"
  by (auto simp add: scenario_def scenario_store_def body_defs stmt_defs table_defs Let_def)

theorem store_shape_witness:
  "files (initial [source_path \<mapsto> scenario]) source_path = Some scenario \<and>
   list_all (\<lambda>c. length (snd c) = 2) scenario \<and>
   ''Efficiency (%)'' \<notin> fst ` set scenario \<and>
   ''Performance_Level'' \<notin> fst ` set scenario \<and>
   snd (run (ingestor @ deriver @ materializer) (initial [source_path \<mapsto> scenario])) = None \<and>
   distinct (map fst scenario) \<and>
   (\<exists>es ls.
      files (fst (run (ingestor @ deriver @ materializer) (initial [source_path \<mapsto> scenario])))
        store_path =
        Some (map (\<lambda>(c, xs). (c, map zero_filled xs)) scenario @
              [(''Efficiency (%)'', es), (''Performance_Level'', ls)]) \<and>
      length es = 2 \<and> length ls = 2)"
proof -
  let ?s = "initial [source_path \<mapsto> scenario]"
  have src: "files ?s source_path = Some scenario"
    by (simp add: initial_def)
  have n: "\<forall>c\<in>set scenario. length (snd c) = 2"
    by (simp add: scenario_def)
  have n': "list_all (\<lambda>c. length (snd c) = 2) scenario"
    by (simp add: scenario_def)
  have fresh: "''Efficiency (%)'' \<notin> fst ` set scenario"
    "''Performance_Level'' \<notin> fst ` set scenario"
    by (simp_all add: scenario_def)
  have e: "snd (run (ingestor @ deriver @ materializer) ?s) = None"
    using run_pipeline_scenario [OF surjective_pairing] by blast
  then have r: "run (ingestor @ deriver @ materializer) ?s =
      (fst (run (ingestor @ deriver @ materializer) ?s), None)"
    by (metis surjective_pairing)
  have dist: "distinct (map fst scenario)"
    by (simp add: scenario_def)
  from store_shape [OF src n fresh r dist] src n' fresh e dist show ?thesis
    by blast
qed

text \<open>
  The claim as stated fails on the scenario of the specification: the store written has no
  column named \<^verbatim>\<open>Efficiency\<close>; the column appended is named \<^verbatim>\<open>Efficiency (%)\<close>.
\<close>

theorem store_column_name_counterexample:
  "files (fst (module_body plain_le (initial [source_path \<mapsto> scenario]))) store_path =
     Some scenario_store \<and>
   map fst scenario_store =
     [''Name'', ''Department'', ''ExperienceYears'', ''ProjectsCompleted'', ''MonthlySalary'',
      ''AttendanceRate (%)'', ''PerformanceScore'', ''Efficiency (%)'', ''Performance_Level''] \<and>
   ''Efficiency'' \<notin> set (map fst scenario_store)"
proof -
  have "map fst scenario_store =
     [''Name'', ''Department'', ''ExperienceYears'', ''ProjectsCompleted'', ''MonthlySalary'',
      ''AttendanceRate (%)'', ''PerformanceScore'', ''Efficiency (%)'', ''Performance_Level'']"
    by (simp add: scenario_store_def scenario_def)
  moreover from this have "''Efficiency'' \<notin> set (map fst scenario_store)"
    by simp
  ultimately show ?thesis
    using run_scenario [OF surjective_pairing] by blast
qed

section \<open>Writing the store and reading it again\<close>












end
